theory Spec2Isabelle
  imports Main
begin

section \<open>Python values and exceptions\<close>

text \<open>
  The exceptions that the serializers of \<^verbatim>\<open>drfpasswordless/serializers.py\<close> raise, catch or
  let through. \<open>ValidationError\<close> is \<^verbatim>\<open>rest_framework.exceptions.ValidationError\<close> (the class
  that \<^verbatim>\<open>serializers.ValidationError\<close> names and that the \<^verbatim>\<open>except ValidationError\<close> clauses
  catch); \<open>DjangoValidationError\<close> is \<^verbatim>\<open>django.core.exceptions.ValidationError\<close>, the
  unrelated class that \<^verbatim>\<open>RegexValidator\<close> raises.
\<close>

datatype error =
    ValidationError string
  | DjangoValidationError string
  | UserDoesNotExist
  | CallbackTokenDoesNotExist
  | MultipleObjectsReturned
  | PermissionDenied
  | IndexError
  | KeyError
  | ValueError
  | TypeError
  | AttributeError

text \<open>Strings are lists of 8-bit characters; the code points below 256 that Python's
  \<^verbatim>\<open>str.isspace\<close> accepts, the ASCII digits that \<^verbatim>\<open>\d\<close> accepts there.\<close>

definition isspace :: "char \<Rightarrow> bool" where
  "isspace c = ((of_char c :: nat) \<in> {9, 10, 11, 12, 13, 28, 29, 30, 31, 32, 133, 160})"

definition isdigit :: "char \<Rightarrow> bool" where
  "isdigit c = (48 \<le> (of_char c :: nat) \<and> (of_char c :: nat) \<le> 57)"

definition lower :: "char \<Rightarrow> char" where
  "lower c = (if 65 \<le> (of_char c :: nat) \<and> (of_char c :: nat) \<le> 90
              then char_of ((of_char c :: nat) + 32) else c)"

text \<open>Truthiness of \<^verbatim>\<open>attrs.get(name, None)\<close>: \<^verbatim>\<open>None\<close> and the empty string are falsy.\<close>

fun truthy :: "string option \<Rightarrow> bool" where
  "truthy None = False"
| "truthy (Some s) = (s \<noteq> [])"

subsection \<open>\<^verbatim>\<open>str.split\<close> and \<^verbatim>\<open>str.join\<close>\<close>

text \<open>\<^verbatim>\<open>s.split()\<close>: the maximal runs of non-whitespace characters, no empty piece. The first
  argument is the piece being read.\<close>

fun split_ws :: "string \<Rightarrow> string \<Rightarrow> string list" where
  "split_ws acc [] = (if acc = [] then [] else [acc])"
| "split_ws acc (c # cs) =
     (if isspace c then (if acc = [] then split_ws [] cs else acc # split_ws [] cs)
      else split_ws (acc @ [c]) cs)"

text \<open>\<^verbatim>\<open>s.split(sep)\<close> for a one-character separator: a cut at every occurrence, empty pieces
  kept.\<close>

fun split_on :: "char \<Rightarrow> string \<Rightarrow> string \<Rightarrow> string list" where
  "split_on sep acc [] = [acc]"
| "split_on sep acc (c # cs) =
     (if c = sep then acc # split_on sep [] cs else split_on sep (acc @ [c]) cs)"

definition join :: "string list \<Rightarrow> string" where
  "join pieces = concat pieces"

subsection \<open>\<^verbatim>\<open>clear_mobile_number\<close>\<close>

definition clear_mobile_number :: "string \<Rightarrow> error + string" where
  "clear_mobile_number mobile0 =
     (let mobile1 = join (split_ws [] mobile0);
          mobile2 = join (split_on CHR ''-'' [] mobile1);
          mobile3 = join (split_on CHR ''('' [] mobile2);
          mobile4 = join (split_on CHR '')'' [] mobile3)
      in case mobile4 of
           [] \<Rightarrow> Inl IndexError
         | c # _ \<Rightarrow> Inr (if c \<noteq> CHR ''+'' then CHR ''+'' # mobile4 else mobile4))"

text \<open>\<^verbatim>\<open>RegexValidator(regex=r'^\+[1-9]\d{1,14}$')\<close> searches the value with \<^verbatim>\<open>re.search\<close>;
  \<^verbatim>\<open>$\<close> matches at the end of the string and also just before one final newline.\<close>

definition regex_search :: "string \<Rightarrow> bool" where
  "regex_search s =
     (case s of
        [] \<Rightarrow> False
      | p # r \<Rightarrow> p = CHR ''+'' \<and>
          (case r of
             [] \<Rightarrow> False
           | d # ds \<Rightarrow> isdigit d \<and> d \<noteq> CHR ''0'' \<and>
               (let body = (if ds \<noteq> [] \<and> last ds = CHR 0x0A then butlast ds else ds)
                in 1 \<le> length body \<and> length body \<le> 14 \<and> list_all isdigit body)))"

definition phone_message :: string where
  "phone_message =
     ''Mobile number must be entered in the format: '' @ [CHR 0x27] @ ''+999999999'' @
     [CHR 0x27] @ ''. Up to 15 digits allowed.''"

definition phone_regex :: "string \<Rightarrow> error + unit" where
  "phone_regex v = (if regex_search v then Inr () else Inl (DjangoValidationError phone_message))"


text \<open>The characters that normalization removes.\<close>

definition stripped :: "char \<Rightarrow> bool" where
  "stripped c = (isspace c \<or> c = CHR ''-'' \<or> c = CHR ''('' \<or> c = CHR '')'')"


section \<open>Settings, users, callback tokens\<close>

text \<open>The options of \<^verbatim>\<open>api_settings\<close> that the serializers read, and the expiry time that the
  age check uses.\<close>

record settings =
  PASSWORDLESS_CALLBACK_TOKEN_LENGTH :: nat
  PASSWORDLESS_REGISTER_NEW_USERS :: bool
  PASSWORDLESS_USER_EMAIL_FIELD_NAME :: string
  PASSWORDLESS_USER_MOBILE_FIELD_NAME :: string
  PASSWORDLESS_MOBILE_NUMBER_STANDARDISE :: bool
  PASSWORDLESS_TEST_MODE :: bool
  PASSWORDLESS_TEST_CODE_INCORRECT :: "int list"
  PASSWORDLESS_USER_MARK_EMAIL_VERIFIED :: bool
  PASSWORDLESS_USER_MARK_MOBILE_VERIFIED :: bool
  PASSWORDLESS_TOKEN_EXPIRE_TIME :: int

definition TOKEN_LENGTH :: "settings \<Rightarrow> nat" where
  "TOKEN_LENGTH conf = PASSWORDLESS_CALLBACK_TOKEN_LENGTH conf"

text \<open>A user of the custom user model: primary key, \<^verbatim>\<open>is_active\<close>, whether the password is
  usable, and the character attributes by name. \<open>attr u n = None\<close>: the object has no
  attribute \<open>n\<close>; \<open>Some None\<close>: the attribute is \<^verbatim>\<open>None\<close>.\<close>

record user =
  pk :: nat
  is_active :: bool
  usable_password :: bool
  attr :: "string \<Rightarrow> string option option"

datatype token_type = TOKEN_TYPE_AUTH | TOKEN_TYPE_VERIFY | TOKEN_TYPE_CHANGE

text \<open>A \<^verbatim>\<open>CallbackToken\<close>; \<open>tk_user\<close> is the owner's primary key, \<open>tk_created_at\<close> is
  \<open>None\<close> on an object that was never saved.\<close>

record callback_token =
  tk_user :: nat
  tk_key :: string
  tk_type :: token_type
  tk_is_active :: bool
  tk_to_alias :: string
  tk_to_alias_type :: string
  tk_created_at :: "int option"

text \<open>The database: the user directory and the token store.\<close>

record db =
  users :: "user list"
  tokens :: "callback_token list"

text \<open>The \<^verbatim>\<open>attrs\<close> dictionary of a serializer: the parsed fields, and \<^verbatim>\<open>attrs['user']\<close>
  once validation has set it. The token field is required, so it is always there.\<close>

record attrs =
  a_email :: "string option"
  a_mobile :: "string option"
  a_token :: string
  a_user :: "user option"

definition attrs_get :: "attrs \<Rightarrow> string \<Rightarrow> string option" where
  "attrs_get a name =
     (if name = ''email'' then a_email a else if name = ''mobile'' then a_mobile a else None)"

fun val :: "string option \<Rightarrow> string" where
  "val None = []"
| "val (Some s) = s"

subsection \<open>The ORM calls\<close>

text \<open>\<^verbatim>\<open>Model.objects.get(...)\<close>: the one row that satisfies the lookup; \<^verbatim>\<open>DoesNotExist\<close> when
  there is none, \<^verbatim>\<open>MultipleObjectsReturned\<close> when there are several.\<close>

definition objects_get :: "error \<Rightarrow> ('a \<Rightarrow> bool) \<Rightarrow> 'a list \<Rightarrow> error + 'a" where
  "objects_get does_not_exist p rows =
     (case filter p rows of
        [] \<Rightarrow> Inl does_not_exist
      | [x] \<Rightarrow> Inr x
      | _ \<Rightarrow> Inl MultipleObjectsReturned)"

text \<open>The lookup \<^verbatim>\<open>name__iexact=alias\<close>: equality up to the case of ASCII letters; a row whose
  attribute is unset does not match.\<close>

definition iexact :: "string \<Rightarrow> string \<Rightarrow> bool" where
  "iexact v w = (map lower v = map lower w)"

definition field_iexact :: "string \<Rightarrow> string \<Rightarrow> user \<Rightarrow> bool" where
  "field_iexact name alias u =
     (case attr u name of Some (Some v) \<Rightarrow> iexact v alias | _ \<Rightarrow> False)"

definition getattr :: "user \<Rightarrow> string \<Rightarrow> error + string option" where
  "getattr u name = (case attr u name of None \<Rightarrow> Inl AttributeError | Some v \<Rightarrow> Inr v)"

definition hasattr :: "user \<Rightarrow> string \<Rightarrow> bool" where
  "hasattr u name = (attr u name \<noteq> None)"

definition fresh_pk :: "db \<Rightarrow> nat" where
  "fresh_pk d = Suc (fold max (map pk (users d)) 0)"

text \<open>\<^verbatim>\<open>User.objects.create(**{name: alias})\<close>: a new row with a new primary key, active (the
  default of Django's user models), the two alias attributes of the model unset but for the
  one given.\<close>

definition objects_create :: "settings \<Rightarrow> string \<Rightarrow> string \<Rightarrow> db \<Rightarrow> user \<times> db" where
  "objects_create conf name alias d =
     (let u = \<lparr> pk = fresh_pk d, is_active = True, usable_password = True,
                attr = ((\<lambda>n. if n = PASSWORDLESS_USER_EMAIL_FIELD_NAME conf \<or>
                                   n = PASSWORDLESS_USER_MOBILE_FIELD_NAME conf
                                then Some None else None)(name := Some (Some alias))) \<rparr>
      in (u, d\<lparr>users := users d @ [u]\<rparr>))"

definition set_unusable_password :: "user \<Rightarrow> user" where
  "set_unusable_password u = u\<lparr>usable_password := False\<rparr>"

definition save :: "user \<Rightarrow> db \<Rightarrow> db" where
  "save u d = d\<lparr>users := map (\<lambda>v. if pk v = pk u then u else v) (users d)\<rparr>"

subsection \<open>The helpers of \<^verbatim>\<open>drfpasswordless.utils\<close>\<close>

text \<open>\<^verbatim>\<open>validate_token_age\<close>, \<^verbatim>\<open>verify_user_alias\<close> and \<^verbatim>\<open>change_user_alias\<close> are imported from
  \<^verbatim>\<open>drfpasswordless.utils\<close>; the serializers are parametric in them. The two alias helpers
  return their flag, the user object as they leave it, and the database as they leave
  it.\<close>

record utils =
  validate_token_age :: "db \<Rightarrow> string \<Rightarrow> bool"
  verify_user_alias :: "db \<Rightarrow> user \<Rightarrow> callback_token \<Rightarrow> bool \<times> user \<times> db"
  change_user_alias :: "db \<Rightarrow> user \<Rightarrow> callback_token \<Rightarrow> user list \<Rightarrow> bool \<times> user \<times> db"

section \<open>Request serializers\<close>

subsection \<open>Authentication\<close>

text \<open>\<^verbatim>\<open>AbstractBaseAliasAuthenticationSerializer.validate\<close>, with \<^verbatim>\<open>self.alias_type\<close> and
  \<^verbatim>\<open>self.alias_field_name\<close> as arguments.\<close>

definition AbstractBaseAliasAuthenticationSerializer_validate ::
  "settings \<Rightarrow> string \<Rightarrow> string \<Rightarrow> db \<Rightarrow> attrs \<Rightarrow> error + attrs \<times> db" where
  "AbstractBaseAliasAuthenticationSerializer_validate conf alias_type alias_field_name d a =
     (let alias = attrs_get a alias_type in
      if truthy alias then
        (case (if PASSWORDLESS_REGISTER_NEW_USERS conf then
                 (case objects_get UserDoesNotExist (field_iexact alias_field_name (val alias))
                         (users d) of
                    Inr u \<Rightarrow> Inr (Some u, d)
                  | Inl UserDoesNotExist \<Rightarrow>
                      (case objects_create conf alias_field_name (val alias) d of
                         (u, d1) \<Rightarrow>
                           (let u1 = set_unusable_password u in Inr (Some u1, save u1 d1)))
                  | Inl e \<Rightarrow> Inl e)
               else
                 (case objects_get UserDoesNotExist (field_iexact alias_field_name (val alias))
                         (users d) of
                    Inr u \<Rightarrow> Inr (Some u, d)
                  | Inl UserDoesNotExist \<Rightarrow> Inr (None, d)
                  | Inl e \<Rightarrow> Inl e)) of
           Inl e \<Rightarrow> Inl e
         | Inr (None, d') \<Rightarrow> Inl (ValidationError ''No account is associated with this alias.'')
         | Inr (Some u, d') \<Rightarrow>
             if \<not> is_active u then Inl (ValidationError ''User account is disabled.'')
             else Inr (a\<lparr>a_user := Some u\<rparr>, d'))
      else Inl (ValidationError (''Missing '' @ alias_type @ ''.'')))"

definition EmailAuthSerializer_validate ::
  "settings \<Rightarrow> db \<Rightarrow> attrs \<Rightarrow> error + attrs \<times> db" where
  "EmailAuthSerializer_validate conf d a =
     AbstractBaseAliasAuthenticationSerializer_validate conf ''email''
       (PASSWORDLESS_USER_EMAIL_FIELD_NAME conf) d a"

text \<open>The step that \<^verbatim>\<open>MobileAuthSerializer\<close> and \<^verbatim>\<open>MobileChangeSerializer\<close> run before the
  inherited \<^verbatim>\<open>validate\<close>: \<^verbatim>\<open>attrs['mobile']\<close> is read (the field is required there), normalized
  when the setting asks for it, and checked.\<close>

definition standardise_mobile :: "settings \<Rightarrow> attrs \<Rightarrow> error + attrs" where
  "standardise_mobile conf a =
     (case a_mobile a of
        None \<Rightarrow> Inl KeyError
      | Some m \<Rightarrow>
          (case (if PASSWORDLESS_MOBILE_NUMBER_STANDARDISE conf then clear_mobile_number m
                 else Inr m) of
             Inl e \<Rightarrow> Inl e
           | Inr m1 \<Rightarrow>
               (case phone_regex m1 of
                  Inl e \<Rightarrow> Inl e
                | Inr _ \<Rightarrow> Inr (a\<lparr>a_mobile := Some m1\<rparr>))))"

definition MobileAuthSerializer_validate ::
  "settings \<Rightarrow> db \<Rightarrow> attrs \<Rightarrow> error + attrs \<times> db" where
  "MobileAuthSerializer_validate conf d a =
     (case standardise_mobile conf a of
        Inl e \<Rightarrow> Inl e
      | Inr a1 \<Rightarrow>
          AbstractBaseAliasAuthenticationSerializer_validate conf ''mobile''
            (PASSWORDLESS_USER_MOBILE_FIELD_NAME conf) d a1)"

subsection \<open>Verification and change\<close>

text \<open>\<^verbatim>\<open>self.context["request"]\<close>: the user it carries (\<open>None\<close> when it has no \<^verbatim>\<open>user\<close>
  attribute or a falsy one: both end in the same branch), and its \<^verbatim>\<open>get\<close> method when the
  object has one. The request objects of Django and of the REST framework have none.\<close>

record request =
  request_user :: "user option"
  request_get :: "(string \<Rightarrow> string option) option"

definition AbstractBaseAliasVerificationSerializer_validate ::
  "string \<Rightarrow> string \<Rightarrow> request option \<Rightarrow> attrs \<Rightarrow> error + attrs" where
  "AbstractBaseAliasVerificationSerializer_validate alias_type alias_field_name req a =
     (if alias_type \<noteq> [] then
        (case req of
           None \<Rightarrow> Inl (ValidationError ''There was a problem with your request.'')
         | Some r \<Rightarrow>
             (case request_user r of
                None \<Rightarrow> Inl (ValidationError ''There was a problem with your request.'')
              | Some u \<Rightarrow>
                  if \<not> is_active u then Inl (ValidationError ''User account is disabled.'')
                  else if hasattr u alias_field_name then Inr (a\<lparr>a_user := Some u\<rparr>)
                  else Inl (ValidationError
                         (''This user doesn'' @ [CHR 0x27] @ ''t have an '' @ alias_field_name @
                          ''.''))))
      else Inl (ValidationError (''Missing '' @ alias_type @ ''.'')))"

definition AbstractBaseAliasChangeSerializer_validate ::
  "string \<Rightarrow> string \<Rightarrow> request option \<Rightarrow> attrs \<Rightarrow> error + attrs" where
  "AbstractBaseAliasChangeSerializer_validate alias_type alias_field_name req a =
     (if alias_type \<noteq> [] then
        (case req of
           None \<Rightarrow> Inl (ValidationError ''There was a problem with your request.'')
         | Some r \<Rightarrow>
             (case request_user r of
                None \<Rightarrow> Inl (ValidationError ''There was a problem with your request.'')
              | Some u \<Rightarrow>
                  if \<not> is_active u then Inl (ValidationError ''User account is disabled.'')
                  else if hasattr u alias_field_name then
                    (case request_get r of
                       None \<Rightarrow> Inl AttributeError
                     | Some g \<Rightarrow>
                         (let alias = g alias_type in
                          case getattr u alias_field_name of
                            Inl e \<Rightarrow> Inl e
                          | Inr cur \<Rightarrow>
                              if cur = alias then
                                Inl (ValidationError
                                       (''This user already have same '' @ alias_type @ ''.''))
                              else Inr (a\<lparr>a_user := Some u\<rparr>)))
                  else Inl (ValidationError
                         (''This user doesn'' @ [CHR 0x27] @ ''t have an '' @ alias_field_name @
                          ''.''))))
      else Inl (ValidationError (''Missing '' @ alias_type @ ''.'')))"

text \<open>\<^verbatim>\<open>class EmailChangeSerializer(AbstractBaseAliasVerificationSerializer)\<close> and
  \<^verbatim>\<open>class MobileChangeSerializer(AbstractBaseAliasVerificationSerializer)\<close>: the two change
  serializers inherit the verification \<^verbatim>\<open>validate\<close>.\<close>

definition EmailChangeSerializer_validate ::
  "settings \<Rightarrow> request option \<Rightarrow> attrs \<Rightarrow> error + attrs" where
  "EmailChangeSerializer_validate conf req a =
     AbstractBaseAliasVerificationSerializer_validate ''email''
       (PASSWORDLESS_USER_EMAIL_FIELD_NAME conf) req a"

definition MobileChangeSerializer_validate ::
  "settings \<Rightarrow> request option \<Rightarrow> attrs \<Rightarrow> error + attrs" where
  "MobileChangeSerializer_validate conf req a =
     (case standardise_mobile conf a of
        Inl e \<Rightarrow> Inl e
      | Inr a1 \<Rightarrow>
          AbstractBaseAliasVerificationSerializer_validate ''mobile''
            (PASSWORDLESS_USER_MOBILE_FIELD_NAME conf) req a1)"

section \<open>Callback token serializers\<close>

subsection \<open>\<^verbatim>\<open>int(value)\<close>\<close>

text \<open>Python's \<^verbatim>\<open>int\<close> on a string: surrounding whitespace is dropped, one sign is allowed,
  then decimal digits, with single underscores between digits; \<^verbatim>\<open>ValueError\<close> otherwise.\<close>

definition strip :: "string \<Rightarrow> string" where
  "strip s = rev (dropWhile isspace (rev (dropWhile isspace s)))"

fun grouped_digits :: "string \<Rightarrow> bool" where
  "grouped_digits [] = False"
| "grouped_digits [c] = isdigit c"
| "grouped_digits (c # u # cs) =
     (isdigit c \<and> (if u = CHR ''_'' then grouped_digits cs else grouped_digits (u # cs)))"

definition digit_value :: "char \<Rightarrow> int" where
  "digit_value c = int (of_char c) - 48"

definition decimal :: "string \<Rightarrow> int" where
  "decimal cs = foldl (\<lambda>n c. 10 * n + digit_value c) 0 (filter (\<lambda>c. c \<noteq> CHR ''_'') cs)"

definition py_int :: "string \<Rightarrow> error + int" where
  "py_int s =
     (let t = strip s;
          negative = (t \<noteq> [] \<and> hd t = CHR ''-'');
          body = (if t \<noteq> [] \<and> (hd t = CHR ''-'' \<or> hd t = CHR ''+'') then tl t else t)
      in if grouped_digits body then Inr (if negative then - decimal body else decimal body)
         else Inl ValueError)"

subsection \<open>The token field\<close>

datatype py_value = PyBool bool | PyStr string

text \<open>\<^verbatim>\<open>token_age_validator\<close>. The framework ignores what a validator returns: a validator
  rejects by raising.\<close>

definition token_age_validator ::
  "settings \<Rightarrow> utils \<Rightarrow> db \<Rightarrow> string \<Rightarrow> error + py_value" where
  "token_age_validator conf ut d v =
     (if PASSWORDLESS_TEST_MODE conf then
        (case py_int v of
           Inl e \<Rightarrow> Inl e
         | Inr n \<Rightarrow>
             if n \<in> set (PASSWORDLESS_TEST_CODE_INCORRECT conf) then Inr (PyBool False)
             else Inr (PyBool True))
      else
        (let valid_token = validate_token_age ut d v in
         if \<not> valid_token then Inl (ValidationError ''The token you entered isn't valid.'')
         else Inr (PyStr v)))"

text \<open>The declared fields of \<^verbatim>\<open>AbstractBaseCallbackTokenSerializer\<close>, as the framework checks
  them before it calls \<^verbatim>\<open>validate\<close>: \<^verbatim>\<open>mobile\<close> has at most 17 characters, \<^verbatim>\<open>token\<close> has
  \<^verbatim>\<open>TOKEN_LENGTH\<close> characters and passes \<^verbatim>\<open>token_age_validator\<close>. The framework gathers the
  messages of all failed checks; the first is kept here. The syntax check of \<^verbatim>\<open>EmailField\<close>
  belongs to the framework and is left out.\<close>

definition run_fields :: "settings \<Rightarrow> utils \<Rightarrow> db \<Rightarrow> attrs \<Rightarrow> error + attrs" where
  "run_fields conf ut d a =
     (if truthy (a_mobile a) \<and> 17 < length (val (a_mobile a)) then
        Inl (ValidationError ''Ensure this field has no more than {max_length} characters.'')
      else
        (case token_age_validator conf ut d (a_token a) of
           Inl e \<Rightarrow> Inl e
         | Inr _ \<Rightarrow>
             if TOKEN_LENGTH conf < length (a_token a) then
               Inl (ValidationError ''Tokens are {max_length} digits long.'')
             else if length (a_token a) < TOKEN_LENGTH conf then
               Inl (ValidationError ''Tokens are {min_length} digits long.'')
             else Inr a))"

subsection \<open>\<^verbatim>\<open>AbstractBaseCallbackTokenSerializer\<close>\<close>

definition validate_alias :: "settings \<Rightarrow> attrs \<Rightarrow> error + (string \<times> string) option" where
  "validate_alias conf a =
     (let email = a_email a; mobile = a_mobile a in
      if truthy email \<and> truthy mobile then Inl (ValidationError ''Invalid input.'')
      else if \<not> truthy email \<and> \<not> truthy mobile then Inl (ValidationError ''Invalid input.'')
      else if truthy email then Inr (Some (PASSWORDLESS_USER_EMAIL_FIELD_NAME conf, val email))
      else if truthy mobile then Inr (Some (PASSWORDLESS_USER_MOBILE_FIELD_NAME conf, val mobile))
      else Inr None)"

text \<open>\<^verbatim>\<open>alias_type, alias = self.validate_alias(attrs)\<close>: unpacking \<^verbatim>\<open>None\<close> is a
  \<^verbatim>\<open>TypeError\<close>.\<close>

definition unpack_alias :: "settings \<Rightarrow> attrs \<Rightarrow> error + string \<times> string" where
  "unpack_alias conf a =
     (case validate_alias conf a of
        Inl e \<Rightarrow> Inl e
      | Inr None \<Rightarrow> Inl TypeError
      | Inr (Some p) \<Rightarrow> Inr p)"

definition AbstractBaseCallbackTokenSerializer_validate ::
  "settings \<Rightarrow> attrs \<Rightarrow> error + attrs" where
  "AbstractBaseCallbackTokenSerializer_validate conf a =
     (if \<not> truthy (a_mobile a) then Inr a
      else
        (case (if PASSWORDLESS_MOBILE_NUMBER_STANDARDISE conf
               then clear_mobile_number (val (a_mobile a)) else Inr (val (a_mobile a))) of
           Inl e \<Rightarrow> Inl e
         | Inr m \<Rightarrow>
             (case phone_regex m of
                Inl e \<Rightarrow> Inl e
              | Inr _ \<Rightarrow> Inr (a\<lparr>a_mobile := Some m\<rparr>))))"

subsection \<open>Finding the token\<close>

text \<open>The part that the three \<^verbatim>\<open>validate\<close> methods share but for the token type: in test
  mode the denylist check and an unsaved token; otherwise the lookup in the store.\<close>

definition find_token ::
  "settings \<Rightarrow> db \<Rightarrow> token_type \<Rightarrow> user \<Rightarrow> string \<Rightarrow> string \<Rightarrow> string \<Rightarrow>
   error + callback_token" where
  "find_token conf d ty u alias_type alias callback_token =
     (if PASSWORDLESS_TEST_MODE conf then
        (case py_int callback_token of
           Inl e \<Rightarrow> Inl e
         | Inr n \<Rightarrow>
             if n \<in> set (PASSWORDLESS_TEST_CODE_INCORRECT conf) then
               Inl (ValidationError ''Incorrect token from settings'')
             else
               (let token = \<lparr> tk_user = pk u, tk_key = callback_token, tk_type = ty,
                              tk_is_active = True, tk_to_alias = alias, tk_to_alias_type = [],
                              tk_created_at = None \<rparr>
                in if PASSWORDLESS_USER_MOBILE_FIELD_NAME conf = alias_type then
                     Inr (token\<lparr>tk_to_alias_type := ''MOBILE''\<rparr>)
                   else if PASSWORDLESS_USER_EMAIL_FIELD_NAME conf = alias_type then
                     Inr (token\<lparr>tk_to_alias_type := ''EMAIL''\<rparr>)
                   else Inl (ValidationError ''Invalid input.'')))
      else
        objects_get CallbackTokenDoesNotExist
          (\<lambda>t. tk_user t = pk u \<and> tk_key t = callback_token \<and> tk_type t = ty \<and> tk_is_active t)
          (tokens d))"

subsection \<open>\<^verbatim>\<open>CallbackTokenAuthSerializer\<close>\<close>

definition auth_try :: "settings \<Rightarrow> utils \<Rightarrow> db \<Rightarrow> attrs \<Rightarrow> error + attrs \<times> db" where
  "auth_try conf ut d a0 =
     (case AbstractBaseCallbackTokenSerializer_validate conf a0 of
        Inl e \<Rightarrow> Inl e
      | Inr a \<Rightarrow>
     (case unpack_alias conf a of
        Inl e \<Rightarrow> Inl e
      | Inr (alias_type, alias) \<Rightarrow>
     (let callback_token = a_token a in
      case objects_get UserDoesNotExist (field_iexact alias_type alias) (users d) of
        Inl e \<Rightarrow> Inl e
      | Inr u \<Rightarrow>
     (case find_token conf d TOKEN_TYPE_AUTH u alias_type alias callback_token of
        Inl e \<Rightarrow> Inl e
      | Inr token \<Rightarrow>
          if tk_user token = pk u then
            if \<not> is_active u then Inl (ValidationError ''User account is disabled.'')
            else if PASSWORDLESS_USER_MARK_EMAIL_VERIFIED conf \<or>
                    PASSWORDLESS_USER_MARK_MOBILE_VERIFIED conf then
              (case objects_get UserDoesNotExist (\<lambda>v. pk v = tk_user token) (users d) of
                 Inl e \<Rightarrow> Inl e
               | Inr u1 \<Rightarrow>
                   (case verify_user_alias ut d u1 token of
                      (success, u2, d2) \<Rightarrow>
                        if \<not> success then Inl (ValidationError ''Error validating user alias.'')
                        else Inr (a\<lparr>a_user := Some u2\<rparr>, d2)))
            else Inr (a\<lparr>a_user := Some u\<rparr>, d)
          else Inl (ValidationError ''Invalid Token'')))))"

definition CallbackTokenAuthSerializer_validate ::
  "settings \<Rightarrow> utils \<Rightarrow> db \<Rightarrow> attrs \<Rightarrow> error + attrs \<times> db" where
  "CallbackTokenAuthSerializer_validate conf ut d a0 =
     (case auth_try conf ut d a0 of
        Inl CallbackTokenDoesNotExist \<Rightarrow>
          Inl (ValidationError ''Invalid alias parameters provided.'')
      | Inl UserDoesNotExist \<Rightarrow>
          Inl (ValidationError ''Invalid user alias parameters provided.'')
      | Inl (ValidationError _) \<Rightarrow>
          Inl (ValidationError ''Invalid alias parameters provided.'')
      | r \<Rightarrow> r)"

subsection \<open>\<^verbatim>\<open>CallbackTokenVerificationSerializer\<close>\<close>

text \<open>\<^verbatim>\<open>self.context.get("user_id")\<close> is the argument \<open>user_id\<close>.\<close>

definition verification_try ::
  "settings \<Rightarrow> utils \<Rightarrow> db \<Rightarrow> nat \<Rightarrow> attrs \<Rightarrow> error + attrs \<times> db" where
  "verification_try conf ut d user_id a0 =
     (case AbstractBaseCallbackTokenSerializer_validate conf a0 of
        Inl e \<Rightarrow> Inl e
      | Inr a \<Rightarrow>
     (case unpack_alias conf a of
        Inl e \<Rightarrow> Inl e
      | Inr (alias_type, alias) \<Rightarrow>
     (case objects_get UserDoesNotExist
             (\<lambda>v. pk v = user_id \<and> field_iexact alias_type alias v) (users d) of
        Inl e \<Rightarrow> Inl e
      | Inr u \<Rightarrow>
     (let callback_token = a_token a in
      case find_token conf d TOKEN_TYPE_VERIFY u alias_type alias callback_token of
        Inl e \<Rightarrow> Inl e
      | Inr token \<Rightarrow>
          if tk_user token = pk u then
            (case verify_user_alias ut d u token of
               (success, u1, d1) \<Rightarrow> Inr (a\<lparr>a_user := Some u1\<rparr>, d1))
          else Inl (ValidationError ''This token is invalid. Try again later.'')))))"

definition CallbackTokenVerificationSerializer_validate ::
  "settings \<Rightarrow> utils \<Rightarrow> db \<Rightarrow> nat \<Rightarrow> attrs \<Rightarrow> error + attrs \<times> db" where
  "CallbackTokenVerificationSerializer_validate conf ut d user_id a0 =
     (case verification_try conf ut d user_id a0 of
        Inl CallbackTokenDoesNotExist \<Rightarrow>
          Inl (ValidationError ''We could not verify this alias.'')
      | Inl UserDoesNotExist \<Rightarrow>
          Inl (ValidationError ''We could not verify this alias.'')
      | Inl PermissionDenied \<Rightarrow>
          Inl (ValidationError ''Insufficient permissions.'')
      | r \<Rightarrow> r)"

subsection \<open>\<^verbatim>\<open>CallbackTokenChangeSerializer\<close>\<close>

definition change_try ::
  "settings \<Rightarrow> utils \<Rightarrow> db \<Rightarrow> nat \<Rightarrow> attrs \<Rightarrow> error + attrs \<times> db" where
  "change_try conf ut d user_id a0 =
     (case AbstractBaseCallbackTokenSerializer_validate conf a0 of
        Inl e \<Rightarrow> Inl e
      | Inr a \<Rightarrow>
     (case unpack_alias conf a of
        Inl e \<Rightarrow> Inl e
      | Inr (alias_type, alias) \<Rightarrow>
     (case objects_get UserDoesNotExist (\<lambda>v. pk v = user_id) (users d) of
        Inl e \<Rightarrow> Inl e
      | Inr u \<Rightarrow>
     (let callback_token = a_token a in
      case getattr u alias_type of
        Inl e \<Rightarrow> Inl e
      | Inr cur \<Rightarrow>
          if Some alias = cur then
            Inl (ValidationError (''This user already have same '' @ alias_type @ ''.''))
          else
     (case find_token conf d TOKEN_TYPE_CHANGE u alias_type alias callback_token of
        Inl e \<Rightarrow> Inl e
      | Inr token \<Rightarrow>
          if tk_user token = pk u \<and> tk_to_alias token = alias then
            (let old_users = filter (field_iexact alias_type alias) (users d) in
             case change_user_alias ut d u token old_users of
               (changed, u1, d1) \<Rightarrow>
                 if changed then
                   (case verify_user_alias ut d1 u1 token of
                      (success, u2, d2) \<Rightarrow> Inr (a\<lparr>a_user := Some u2\<rparr>, d2))
                 else Inr (a\<lparr>a_user := Some u1\<rparr>, d1))
          else Inl (ValidationError ''This token is invalid. Try again later.''))))))"

definition CallbackTokenChangeSerializer_validate ::
  "settings \<Rightarrow> utils \<Rightarrow> db \<Rightarrow> nat \<Rightarrow> attrs \<Rightarrow> error + attrs \<times> db" where
  "CallbackTokenChangeSerializer_validate conf ut d user_id a0 =
     (case change_try conf ut d user_id a0 of
        Inl CallbackTokenDoesNotExist \<Rightarrow>
          Inl (ValidationError ''We could not verify this alias. No token.'')
      | Inl UserDoesNotExist \<Rightarrow>
          Inl (ValidationError ''We could not verify this alias. Bad user.'')
      | Inl PermissionDenied \<Rightarrow>
          Inl (ValidationError ''Insufficient permissions.'')
      | r \<Rightarrow> r)"

subsection \<open>A token submission from the fields to \<^verbatim>\<open>validate\<close>\<close>

text \<open>The framework validates the declared fields and, when they pass, calls the
  serializer's \<^verbatim>\<open>validate\<close>.\<close>

datatype submission = Auth | Verify nat | Change nat

fun token_type_of :: "submission \<Rightarrow> token_type" where
  "token_type_of Auth = TOKEN_TYPE_AUTH"
| "token_type_of (Verify _) = TOKEN_TYPE_VERIFY"
| "token_type_of (Change _) = TOKEN_TYPE_CHANGE"

fun serializer_validate ::
  "submission \<Rightarrow> settings \<Rightarrow> utils \<Rightarrow> db \<Rightarrow> attrs \<Rightarrow> error + attrs \<times> db" where
  "serializer_validate Auth conf ut d a = CallbackTokenAuthSerializer_validate conf ut d a"
| "serializer_validate (Verify user_id) conf ut d a =
     CallbackTokenVerificationSerializer_validate conf ut d user_id a"
| "serializer_validate (Change user_id) conf ut d a =
     CallbackTokenChangeSerializer_validate conf ut d user_id a"

definition run_validation ::
  "submission \<Rightarrow> settings \<Rightarrow> utils \<Rightarrow> db \<Rightarrow> attrs \<Rightarrow> error + attrs \<times> db" where
  "run_validation sub conf ut d a =
     (case run_fields conf ut d a of
        Inl e \<Rightarrow> Inl e
      | Inr a1 \<Rightarrow> serializer_validate sub conf ut d a1)"


subsection \<open>The age check\<close>

text \<open>Modelled from the spec: \<^verbatim>\<open>validate_token_age\<close> of \<^verbatim>\<open>drfpasswordless.utils\<close> is not among
  the sources. The specification gives the contract of the age validator:
  \<^verbatim>\<open>is_token_fresh(created_at, now, ttl_seconds)\<close> is true iff
  \<^verbatim>\<open>now - created_at <= ttl_seconds\<close>, and nothing is mutated. The validator is handed the
  submitted key alone, so it is taken to pass when an active token of the store carries
  that key and is fresh.\<close>

definition is_token_fresh :: "int \<Rightarrow> int \<Rightarrow> int \<Rightarrow> bool" where
  "is_token_fresh created_at now ttl_seconds = (now - created_at \<le> ttl_seconds)"

definition token_fresh :: "settings \<Rightarrow> int \<Rightarrow> callback_token \<Rightarrow> bool" where
  "token_fresh conf now t =
     (case tk_created_at t of
        None \<Rightarrow> False
      | Some c \<Rightarrow> is_token_fresh c now (PASSWORDLESS_TOKEN_EXPIRE_TIME conf))"

definition spec_validate_token_age :: "settings \<Rightarrow> int \<Rightarrow> db \<Rightarrow> string \<Rightarrow> bool" where
  "spec_validate_token_age conf now d k =
     list_ex (\<lambda>t. tk_key t = k \<and> tk_is_active t \<and> token_fresh conf now t) (tokens d)"

section \<open>A small deployment\<close>








definition utils_failing :: "settings \<Rightarrow> int \<Rightarrow> utils" where
  "utils_failing conf now =
     \<lparr> validate_token_age = spec_validate_token_age conf now,
       verify_user_alias = (\<lambda>d u t. (False, u, d)),
       change_user_alias = (\<lambda>d u t old. (False, u, d)) \<rparr>"


section \<open>Mobile numbers\<close>

lemma concat_split_ws: "concat (split_ws acc s) = acc @ filter (\<lambda>c. \<not> isspace c) s"
  by (induction s arbitrary: acc) auto

lemma concat_split_on: "concat (split_on sep acc s) = acc @ filter (\<lambda>c. c \<noteq> sep) s"
  by (induction s arbitrary: acc) auto

lemma filter_stripped:
  "filter (\<lambda>c. c \<noteq> CHR '')'') (filter (\<lambda>c. c \<noteq> CHR ''('') (filter (\<lambda>c. c \<noteq> CHR ''-'')
     (filter (\<lambda>c. \<not> isspace c) s))) = filter (\<lambda>c. \<not> stripped c) s"
  by (induction s) (auto simp: stripped_def)

lemma clear_mobile_number_filter:
  "clear_mobile_number m =
     (case filter (\<lambda>c. \<not> stripped c) m of
        [] \<Rightarrow> Inl IndexError
      | c # cs \<Rightarrow> Inr (if c \<noteq> CHR ''+'' then CHR ''+'' # c # cs else c # cs))"
proof -
  have "join (split_on CHR '')'' [] (join (split_on CHR ''('' [] (join (split_on CHR ''-'' []
          (join (split_ws [] m))))))) = filter (\<lambda>c. \<not> stripped c) m"
    by (simp only: join_def concat_split_ws concat_split_on append_Nil filter_stripped)
  then show ?thesis
    by (simp only: clear_mobile_number_def Let_def split: list.splits) simp
qed






text \<open>
  \<^bold>\<open>C10.\<close> \<^verbatim>\<open>clear_mobile_number\<close> is partial: on every string that is empty once whitespace,
  hyphens and parentheses are removed (\<^verbatim>\<open>'()'\<close> and \<^verbatim>\<open>'-'\<close> among them) the read of
  \<^verbatim>\<open>mobile[0]\<close> raises \<^verbatim>\<open>IndexError\<close>, and it raises it on no other string.
\<close>

theorem clear_mobile_number_index_error:
  "clear_mobile_number m = Inl IndexError \<longleftrightarrow> (\<forall>c \<in> set m. stripped c)"
proof (cases "filter (\<lambda>c. \<not> stripped c) m")
  case Nil
  then show ?thesis
    by (simp add: clear_mobile_number_filter filter_empty_conv)
next
  case (Cons c cs)
  then have "filter (\<lambda>c. \<not> stripped c) m \<noteq> []" by simp
  then have "\<not> (\<forall>c \<in> set m. stripped c)" by (simp add: filter_empty_conv)
  with Cons show ?thesis
    by (simp add: clear_mobile_number_filter)
qed

theorem clear_mobile_number_index_error_witness:
  "list_all stripped ''()'' \<and> clear_mobile_number ''()'' = Inl IndexError \<and>
   list_all stripped ''-'' \<and> clear_mobile_number ''-'' = Inl IndexError"
proof -
  have h1: "\<forall>c \<in> set ''()''. stripped c" and h2: "\<forall>c \<in> set ''-''. stripped c"
    by (simp_all add: stripped_def)
  have "clear_mobile_number ''()'' = Inl IndexError"
    using h1 clear_mobile_number_index_error [of "''()''"] by blast
  moreover have "clear_mobile_number ''-'' = Inl IndexError"
    using h2 clear_mobile_number_index_error [of "''-''"] by blast
  ultimately show ?thesis
    using h1 h2 by (simp add: list_all_iff)
qed



section \<open>Alias resolution\<close>




end
